theory Spec2Isabelle
  imports Complex_Main "HOL-Library.Word" "HOL-Library.Sublist"
begin

section \<open>JavaScript strings\<close>

text \<open>
  A JavaScript string is a sequence of UTF-16 code units. \<open>js\<close> writes an ASCII literal
  of the source as such a sequence, \<open>cu\<close> a single ASCII character.
\<close>

type_synonym jschar = "16 word"
type_synonym jsstring = "jschar list"

definition cu :: "char \<Rightarrow> jschar" where
  "cu c = of_nat (of_char c)"

definition js :: "string \<Rightarrow> jsstring" where
  "js s = map cu s"

text \<open>
  The class \<open>\s\<close> of a regular expression and the characters removed by
  \<open>String.prototype.trim\<close> are the same set: WhiteSpace and LineTerminator of ECMAScript.
\<close>

definition is_whitespace :: "jschar \<Rightarrow> bool" where
  "is_whitespace c \<longleftrightarrow>
     c = 0x9 \<or> c = 0xA \<or> c = 0xB \<or> c = 0xC \<or> c = 0xD \<or> c = 0x20 \<or> c = 0xA0 \<or>
     c = 0x1680 \<or> (0x2000 \<le> c \<and> c \<le> 0x200A) \<or> c = 0x2028 \<or> c = 0x2029 \<or>
     c = 0x202F \<or> c = 0x205F \<or> c = 0x3000 \<or> c = 0xFEFF"

definition is_digit :: "jschar \<Rightarrow> bool" where
  "is_digit c \<longleftrightarrow> cu CHR ''0'' \<le> c \<and> c \<le> cu CHR ''9''"

definition trim :: "jsstring \<Rightarrow> jsstring" where
  "trim s = rev (dropWhile is_whitespace (rev (dropWhile is_whitespace s)))"

text \<open>\<open>s.replace(/\s/g, '')\<close>\<close>

definition remove_whitespace :: "jsstring \<Rightarrow> jsstring" where
  "remove_whitespace s = filter (\<lambda>c. \<not> is_whitespace c) s"

text \<open>
  \<open>s.replace(/ab/g, r)\<close> for a pattern of two single-character classes \<open>p\<close>, \<open>q\<close>: the
  matches are found from left to right, do not overlap, and the inserted text is not
  scanned again.
\<close>

fun replace2 :: "(jschar \<Rightarrow> bool) \<Rightarrow> (jschar \<Rightarrow> bool) \<Rightarrow> jsstring \<Rightarrow> jsstring \<Rightarrow> jsstring" where
  "replace2 p q r (a # b # cs) =
     (if p a \<and> q b then r @ replace2 p q r cs else a # replace2 p q r (b # cs))"
| "replace2 p q r cs = cs"

text \<open>\<open>s.split(sep)\<close> for a separator of one character.\<close>

fun split_on :: "jschar \<Rightarrow> jsstring \<Rightarrow> jsstring list" where
  "split_on sep [] = [[]]"
| "split_on sep (c # cs) =
     (if c = sep then [] # split_on sep cs
      else (case split_on sep cs of [] \<Rightarrow> [[c]] | p # ps \<Rightarrow> (c # p) # ps))"

section \<open>The runtime\<close>

text \<open>
  Numbers are IEEE doubles computed by the JavaScript engine, and the last step of
  \<open>evaluate\<close> hands a program text to the engine's \<open>Function\<close> constructor. Neither is code
  of the calculator: both are parameters of the model. \<open>'v\<close> is the type of the values
  of the engine; \<open>Function_call src\<close> is what \<open>Function(src)()\<close> does, \<open>Threw\<close> when
  building or running the function raises.
\<close>

datatype 'v call_result = Threw | Returned 'v

record 'v js_runtime =
  Function_call :: "jsstring \<Rightarrow> 'v call_result"
  js_isFinite :: "'v \<Rightarrow> bool"
  js_times :: "'v \<Rightarrow> 'v \<Rightarrow> 'v"
  js_divide :: "'v \<Rightarrow> 'v \<Rightarrow> 'v"
  js_less :: "'v \<Rightarrow> 'v \<Rightarrow> bool"
  Math_round :: "'v \<Rightarrow> 'v"
  Math_sqrt :: "'v \<Rightarrow> 'v"
  Math_pow :: "'v \<Rightarrow> 'v \<Rightarrow> 'v"
  js_number :: "int \<Rightarrow> 'v"

section \<open>SafeCalculator\<close>

text \<open>
  The error strings of \<open>app.js\<close>, one constructor for each string literal that starts
  with \<open>Error:\<close>, in the order of the file.
\<close>

datatype error =
    EmptyExpression
  | TooManyPowerOps
  | InvalidCharacters
  | InvalidPowerExpression
  | UnmatchedParens
  | DivisionByZero
  | InvalidResult
  | InvalidExpression
  | NegativeSqrt
  | InvalidPower
  | InvalidPercentage

fun error_text :: "error \<Rightarrow> jsstring" where
  "error_text EmptyExpression = js ''Error: Empty expression''"
| "error_text TooManyPowerOps = js ''Error: Too many power operations''"
| "error_text InvalidCharacters = js ''Error: Invalid characters''"
| "error_text InvalidPowerExpression = js ''Error: Invalid power expression''"
| "error_text UnmatchedParens = js ''Error: Unmatched parentheses''"
| "error_text DivisionByZero = js ''Error: Division by zero''"
| "error_text InvalidResult = js ''Error: Invalid result''"
| "error_text InvalidExpression = js ''Error: Invalid expression''"
| "error_text NegativeSqrt = js ''Error: Negative square root''"
| "error_text InvalidPower = js ''Error: Invalid power''"
| "error_text InvalidPercentage = js ''Error: Invalid percentage''"

subsection \<open>Constants\<close>

text \<open>
  The glyph token of lines 22, 44 and 45, as the file under \<open>src/\<close> holds it: the two
  code units U+00CF and U+20AC. \<open>PI_string\<close> is \<open>Math.PI.toString()\<close>.
\<close>

definition glyph1 :: jschar where "glyph1 = 0xCF"
definition glyph2 :: jschar where "glyph2 = 0x20AC"

definition PI_string :: jsstring where
  "PI_string = js ''3.141592653589793''"

definition replace_constants :: "jsstring \<Rightarrow> jsstring" where
  "replace_constants s =
     replace2 (\<lambda>c. c = cu CHR ''p'' \<or> c = cu CHR ''P'') (\<lambda>c. c = cu CHR ''i'' \<or> c = cu CHR ''I'')
       PI_string
       (replace2 (\<lambda>c. c = glyph1) (\<lambda>c. c = glyph2) PI_string s)"

text \<open>Lines 19 to 23: the whitespace goes, then the constants are written out.\<close>

definition normalise :: "jsstring \<Rightarrow> jsstring" where
  "normalise expression = replace_constants (remove_whitespace expression)"

subsection \<open>The power rewrite\<close>

text \<open>
  \<open>\d+(?:\.\d+)?\<close> at the front of a string: the digits, then a point and digits when
  both are there. The result is the matched text and the rest. Both quantifiers are
  greedy; giving back a digit leaves a digit next, which neither \<open>\.\<close> nor \<open>\^\<close> nor the
  end of the pattern needs, so the greedy match is the only one to try.
\<close>

definition match_number :: "jsstring \<Rightarrow> (jsstring \<times> jsstring) option" where
  "match_number s =
     (let ds = takeWhile is_digit s; r = dropWhile is_digit s in
      if ds = [] then None
      else (case r of
              [] \<Rightarrow> Some (ds, r)
            | d # r' \<Rightarrow>
                if d = cu CHR ''.'' \<and> takeWhile is_digit r' \<noteq> []
                then Some (ds @ d # takeWhile is_digit r', dropWhile is_digit r')
                else Some (ds, r)))"

text \<open>
  \<open>\([^)]+\)\<close> at the front of a string: an opening parenthesis, at least one character
  that is not a closing one, and the first closing parenthesis.
\<close>

definition match_group :: "jsstring \<Rightarrow> (jsstring \<times> jsstring) option" where
  "match_group s =
     (case s of
        [] \<Rightarrow> None
      | c # r \<Rightarrow>
          if c \<noteq> cu CHR ''('' then None
          else (let inner = takeWhile (\<lambda>x. x \<noteq> cu CHR '')'') r;
                    after = dropWhile (\<lambda>x. x \<noteq> cu CHR '')'') r in
                if inner = [] then None
                else (case after of
                        [] \<Rightarrow> None
                      | p # r' \<Rightarrow> Some (c # inner @ [p], r'))))"

text \<open>
  The whole pattern of line 31 at the front of a string: the base (a group, else a
  number), the caret, the exponent. The result is base, exponent and the rest.
\<close>

definition match_base :: "jsstring \<Rightarrow> (jsstring \<times> jsstring) option" where
  "match_base s = (case match_group s of Some m \<Rightarrow> Some m | None \<Rightarrow> match_number s)"

definition match_power :: "jsstring \<Rightarrow> (jsstring \<times> jsstring \<times> jsstring) option" where
  "match_power s =
     (case match_base s of
        None \<Rightarrow> None
      | Some (base, r) \<Rightarrow>
          (case r of
             [] \<Rightarrow> None
           | c # r' \<Rightarrow>
               if c \<noteq> cu CHR ''^'' then None
               else (case match_number r' of
                       None \<Rightarrow> None
                     | Some (exp', rest) \<Rightarrow> Some (base, exp', rest))))"

text \<open>A match is a prefix of the string; this is what makes the replacement terminate.\<close>

lemma match_number_split:
  assumes "match_number s = Some (m, r)"
  shows "s = m @ r"
proof -
  have s: "s = takeWhile is_digit s @ dropWhile is_digit s" by simp
  show ?thesis
  proof (cases "dropWhile is_digit s")
    case Nil
    with assms s show ?thesis
      by (auto simp: match_number_def Let_def split: if_splits)
  next
    case (Cons d r')
    have "r' = takeWhile is_digit r' @ dropWhile is_digit r'" by simp
    with Cons s have "s = takeWhile is_digit s @ d # takeWhile is_digit r' @ dropWhile is_digit r'"
      by simp
    with assms Cons s show ?thesis
      by (auto simp: match_number_def Let_def split: if_splits)
  qed
qed

lemma match_group_split:
  assumes "match_group s = Some (m, r)"
  shows "s = m @ r"
proof -
  from assms obtain c t where s: "s = c # t"
    by (cases s) (auto simp: match_group_def)
  let ?P = "\<lambda>x. x \<noteq> cu CHR '')''"
  have t: "t = takeWhile ?P t @ dropWhile ?P t" by simp
  from assms s obtain p r' where d: "dropWhile ?P t = p # r'"
    and m: "m = c # takeWhile ?P t @ [p]" and r: "r = r'"
    by (auto simp: match_group_def Let_def split: if_splits list.splits)
  from t d have "t = takeWhile ?P t @ p # r'" by simp
  with s m r show ?thesis by simp
qed

lemma match_power_split:
  assumes "match_power s = Some (b, e, r)"
  shows "s = b @ cu CHR ''^'' # e @ r"
proof -
  from assms obtain r1 r2 where
    m1: "match_base s = Some (b, r1)" and r1: "r1 = cu CHR ''^'' # r2"
    and m2: "match_number r2 = Some (e, r)"
    by (auto simp: match_power_def split: option.splits list.splits if_splits)
  have "s = b @ r1"
    using m1 match_group_split [of s b r1] match_number_split [of s b r1]
    by (auto simp: match_base_def split: option.splits)
  moreover have "r2 = e @ r"
    using m2 by (rule match_number_split)
  ultimately show ?thesis using r1 by simp
qed

lemma match_power_shorter:
  assumes "match_power s = Some (b, e, r)"
  shows "length r < length s"
proof -
  have "length s = length (b @ cu CHR ''^'' # e @ r)"
    using match_power_split [OF assms] by simp
  then show ?thesis by simp
qed

function replace_power :: "jsstring \<Rightarrow> jsstring" where
  "replace_power [] = []"
| "replace_power (c # cs) =
     (case match_power (c # cs) of
        None \<Rightarrow> c # replace_power cs
      | Some (base, exp', rest) \<Rightarrow>
          js ''Math.pow('' @ base @ js '','' @ exp' @ js '')'' @ replace_power rest)"
  by pat_completeness auto
termination
  by (relation "measure length") (auto dest: match_power_shorter)


text \<open>
  Lines 27 to 40. The state of the loop is the text and the flag \<open>hasPower\<close>. A pass
  that leaves a caret, and fewer than ten of them, runs the loop again; when no pass ever
  gets out, the function has no result, which is \<open>None\<close> here.
\<close>

partial_function (option) power_loop :: "jsstring \<Rightarrow> bool \<Rightarrow> (error + jsstring \<times> bool) option" where
  "power_loop expression hasPower =
     (if cu CHR ''^'' \<notin> set expression then Some (Inr (expression, hasPower))
      else (let expression' = replace_power expression in
            if cu CHR ''^'' \<notin> set expression' then Some (Inr (expression', True))
            else if length (split_on (cu CHR ''^'') expression') > 10
                 then Some (Inl TooManyPowerOps)
                 else power_loop expression' True))"

declare power_loop.simps [code]

subsection \<open>The checks\<close>

text \<open>The character classes of \<open>originalPattern\<close> and \<open>withMathPow\<close>, lines 44 and 45.\<close>

definition original_char :: "jschar \<Rightarrow> bool" where
  "original_char c \<longleftrightarrow>
     is_digit c \<or> c = cu CHR ''+'' \<or> c = cu CHR ''-'' \<or> c = cu CHR ''*'' \<or> c = cu CHR ''/'' \<or>
     c = cu CHR ''('' \<or> c = cu CHR '')'' \<or> c = cu CHR ''.'' \<or> c = glyph1 \<or> c = glyph2"

definition mathpow_char :: "jschar \<Rightarrow> bool" where
  "mathpow_char c \<longleftrightarrow>
     original_char c \<or> c = cu CHR ''M'' \<or> c = cu CHR ''a'' \<or> c = cu CHR ''t'' \<or>
     c = cu CHR ''h'' \<or> c = cu CHR ''p'' \<or> c = cu CHR ''o'' \<or> c = cu CHR ''w'' \<or>
     c = cu CHR '','' \<or> is_whitespace c"

text \<open>\<open>/^[...]+$/.test(s)\<close>: the text is not empty and every character is of the class.\<close>

definition originalPattern :: "jsstring \<Rightarrow> bool" where
  "originalPattern s \<longleftrightarrow> s \<noteq> [] \<and> list_all original_char s"

definition withMathPow :: "jsstring \<Rightarrow> bool" where
  "withMathPow s \<longleftrightarrow> s \<noteq> [] \<and> list_all mathpow_char s"

text \<open>
  Lines 55 to 61: the counter of open parentheses; \<open>None\<close> when it goes below zero,
  which returns from inside the loop.
\<close>

fun paren_scan :: "int \<Rightarrow> jsstring \<Rightarrow> int option" where
  "paren_scan parenCount [] = Some parenCount"
| "paren_scan parenCount (c # cs) =
     (let n1 = (if c = cu CHR ''('' then parenCount + 1 else parenCount);
          n2 = (if c = cu CHR '')'' then n1 - 1 else n1)
      in if n2 < 0 then None else paren_scan n2 cs)"

definition balanced :: "jsstring \<Rightarrow> bool" where
  "balanced s \<longleftrightarrow> paren_scan 0 s = Some 0"

text \<open>
  Line 64, \<open>/\/\s*0(?!\.)/.test(s)\<close>. \<open>division_at\<close> is the pattern at the front of a
  string: a slash, any whitespace, a zero, and then no point. The test looks for it at
  every position.
\<close>

definition division_at :: "jsstring \<Rightarrow> bool" where
  "division_at s =
     (case s of
        [] \<Rightarrow> False
      | c # r \<Rightarrow>
          c = cu CHR ''/'' \<and>
          (case dropWhile is_whitespace r of
             [] \<Rightarrow> False
           | z # r' \<Rightarrow>
               z = cu CHR ''0'' \<and> (case r' of [] \<Rightarrow> True | d # _ \<Rightarrow> d \<noteq> cu CHR ''.'')))"

fun division_by_zero :: "jsstring \<Rightarrow> bool" where
  "division_by_zero [] = False"
| "division_by_zero (c # cs) = (division_at (c # cs) \<or> division_by_zero cs)"

subsection \<open>evaluate\<close>

text \<open>
  Lines 68 to 82, the \<open>try\<close> block: the text goes to the engine between
  \<open>"use strict"; return (\<close> and \<open>)\<close>.
\<close>

definition function_source :: "jsstring \<Rightarrow> jsstring" where
  \<open>function_source expression = js ''"use strict"; return ('' @ expression @ js '')''\<close>

definition execute :: "'v js_runtime \<Rightarrow> jsstring \<Rightarrow> error + 'v" where
  "execute rt expression =
     (case Function_call rt (function_source expression) of
        Threw \<Rightarrow> Inl InvalidExpression
      | Returned result \<Rightarrow>
          if \<not> js_isFinite rt result then Inl InvalidResult
          else Inr (js_divide rt
                      (Math_round rt (js_times rt result (js_number rt 100000000)))
                      (js_number rt 100000000)))"

text \<open>
  \<open>SafeCalculator.evaluate\<close>. The result is \<open>None\<close> when the call does not return,
  else the error or the number.
\<close>

definition evaluate :: "'v js_runtime \<Rightarrow> jsstring \<Rightarrow> (error + 'v) option" where
  "evaluate rt expression =
     (if expression = [] \<or> trim expression = [] then Some (Inl EmptyExpression)
      else (case power_loop (normalise expression) False of
              None \<Rightarrow> None
            | Some (Inl e) \<Rightarrow> Some (Inl e)
            | Some (Inr (expression', hasPower)) \<Rightarrow>
                Some (if \<not> hasPower \<and> \<not> originalPattern (remove_whitespace expression')
                        then Inl InvalidCharacters
                      else if hasPower \<and> \<not> withMathPow expression'
                        then Inl InvalidPowerExpression
                      else if \<not> balanced expression' then Inl UnmatchedParens
                      else if division_by_zero expression' then Inl DivisionByZero
                      else execute rt expression')))"

definition sqrt_calc :: "'v js_runtime \<Rightarrow> 'v \<Rightarrow> error + 'v" where
  "sqrt_calc rt v =
     (if js_less rt v (js_number rt 0) then Inl NegativeSqrt else Inr (Math_sqrt rt v))"

definition power :: "'v js_runtime \<Rightarrow> 'v \<Rightarrow> 'v \<Rightarrow> error + 'v" where
  "power rt base exponent =
     (let result = Math_pow rt base exponent in
      if \<not> js_isFinite rt result then Inl InvalidPower else Inr result)"

text \<open>
  \<open>SafeCalculator.percentage\<close>. \<open>evaluate\<close> raises nothing, so the \<open>catch\<close> of line 117
  has no branch here.
\<close>

definition percentage :: "'v js_runtime \<Rightarrow> jsstring \<Rightarrow> (error + 'v) option" where
  "percentage rt expression =
     (case evaluate rt expression of
        None \<Rightarrow> None
      | Some (Inl e) \<Rightarrow> Some (Inl e)
      | Some (Inr v) \<Rightarrow> Some (Inr (js_divide rt v (js_number rt 100))))"

section \<open>CalculatorState\<close>

text \<open>
  A history entry; \<open>new Date()\<close> is an argument of \<open>addToHistory\<close>, in milliseconds.
  \<open>saveHistory\<close> writes the list to the browser's storage and leaves the object as it
  is, so it has no part in the state here.
\<close>

record 'v history_entry =
  entry_expression :: jsstring
  entry_result :: 'v
  entry_timestamp :: int

record 'v CalculatorState =
  history :: "'v history_entry list"
  maxHistoryItems :: nat

definition new_CalculatorState :: "'v CalculatorState" where
  "new_CalculatorState = \<lparr>history = [], maxHistoryItems = 10\<rparr>"

definition addToHistory :: "jsstring \<Rightarrow> 'v \<Rightarrow> int \<Rightarrow> 'v CalculatorState \<Rightarrow> 'v CalculatorState" where
  "addToHistory expression r now s =
     (let h = \<lparr>entry_expression = expression, entry_result = r, entry_timestamp = now\<rparr>
              # history s
      in s\<lparr>history := (if length h > maxHistoryItems s then butlast h else h)\<rparr>)"

definition clearHistory :: "'v CalculatorState \<Rightarrow> 'v CalculatorState" where
  "clearHistory s = s\<lparr>history := []\<rparr>"

datatype 'v history_op = AddToHistory jsstring 'v int | ClearHistory

fun history_step :: "'v CalculatorState \<Rightarrow> 'v history_op \<Rightarrow> 'v CalculatorState" where
  "history_step s (AddToHistory expression r now) = addToHistory expression r now s"
| "history_step s ClearHistory = clearHistory s"

definition run_history :: "'v history_op list \<Rightarrow> 'v CalculatorState" where
  "run_history ops = foldl history_step new_CalculatorState ops"

section \<open>The display\<close>

text \<open>
  The state of the handlers below is \<open>display.value\<close>. The test of lines 316, 334 and
  362 for a display that shows an error:
\<close>

definition shows_error :: "jsstring \<Rightarrow> bool" where
  "shows_error currentValue \<longleftrightarrow>
     currentValue = js ''Error'' \<or> prefix (js ''Error:'') currentValue"

definition appendToDisplay :: "jsstring \<Rightarrow> jsstring \<Rightarrow> jsstring" where
  "appendToDisplay v display = (if shows_error display then v else display @ v)"

text \<open>\<open>s.slice(-1)\<close> and \<open>s.slice(0, -1)\<close>\<close>

definition slice_last :: "jsstring \<Rightarrow> jsstring" where
  "slice_last s = (if s = [] then [] else [last s])"

definition slice_init :: "jsstring \<Rightarrow> jsstring" where
  "slice_init s = butlast s"

definition operator_char :: "jschar \<Rightarrow> bool" where
  "operator_char c \<longleftrightarrow>
     c = cu CHR ''+'' \<or> c = cu CHR ''-'' \<or> c = cu CHR ''*'' \<or> c = cu CHR ''/''"

text \<open>
  \<open>handleOperatorClick\<close>, lines 330 to 352: \<open>currentValue\<close> is read once, before the
  error is cleared; the sound and the focus are left out.
\<close>

definition handleOperatorClick :: "jsstring \<Rightarrow> jsstring \<Rightarrow> jsstring" where
  "handleOperatorClick v display =
     (let currentValue = display;
          display1 = (if shows_error currentValue then [] else display)
      in if currentValue = [] \<and> v \<noteq> js ''-'' then display1
         else (let lastChar = slice_last currentValue in
               if list_ex operator_char lastChar \<and> v \<noteq> js ''-''
               then slice_init currentValue @ v
               else appendToDisplay v display1))"


section \<open>Auxiliary definitions of the statements\<close>

text \<open>
  The text that line 64 tests, for an input that gets there: the input is not blank, the
  power loop has ended without an error, and the text has passed the character check of
  its branch and the parenthesis check.
\<close>

definition text_at_division_check :: "jsstring \<Rightarrow> jsstring option" where
  "text_at_division_check expression =
     (if expression = [] \<or> trim expression = [] then None
      else (case power_loop (normalise expression) False of
              None \<Rightarrow> None
            | Some (Inl e) \<Rightarrow> None
            | Some (Inr (s, hasPower)) \<Rightarrow>
                if (if hasPower then withMathPow s else originalPattern (remove_whitespace s))
                   \<and> balanced s
                then Some s else None))"

definition no_whitespace :: "jsstring \<Rightarrow> bool" where
  "no_whitespace s = list_all (\<lambda>c. \<not> is_whitespace c) s"

text \<open>The errors that \<open>evaluate\<close> has a \<open>return\<close> for, and the ten kinds of the taxonomy.\<close>

definition evaluate_errors :: "error list" where
  "evaluate_errors =
     [EmptyExpression, TooManyPowerOps, InvalidCharacters, InvalidPowerExpression,
      UnmatchedParens, DivisionByZero, InvalidResult, InvalidExpression]"

definition taxonomy :: "error list" where
  "taxonomy =
     [EmptyExpression, InvalidCharacters, TooManyPowerOps, UnmatchedParens, DivisionByZero,
      InvalidExpression, InvalidResult, NegativeSqrt, InvalidPower, InvalidPercentage]"

text \<open>
  An instance of the runtime for the concrete examples below. Exact real arithmetic
  stands for the doubles, and the execution primitive is the table of what the engine
  answers on the three program texts that the examples run; no general statement is
  about this instance.
\<close>

definition example_call :: "jsstring \<Rightarrow> real call_result" where
  \<open>example_call src =
     (if src = js ''"use strict"; return (5/0.5)'' then Returned 10
      else if src = js ''"use strict"; return (250)'' then Returned 250
      else if src = js ''"use strict"; return (2+2)'' then Returned 4
      else Threw)\<close>

definition example_runtime :: "real js_runtime" where
  "example_runtime =
     \<lparr>Function_call = example_call,
      js_isFinite = (\<lambda>x. True),
      js_times = (\<lambda>x y. x * y),
      js_divide = (\<lambda>x y. x / y),
      js_less = (\<lambda>x y. x < y),
      Math_round = (\<lambda>x. of_int \<lfloor>x + 1 / 2\<rfloor>),
      Math_sqrt = sqrt,
      Math_pow = (\<lambda>x y. x powr y),
      js_number = of_int\<rparr>"

definition ten_additions :: "real history_op list" where
  "ten_additions =
     map (\<lambda>n. AddToHistory (js ''1+1'') 2 n) [1, 2, 3, 4, 5, 6, 7, 8, 9, 10]"

section \<open>Properties\<close>

lemmas string_defs = js_def cu_def is_digit_def

lemmas match_defs = match_power_def match_base_def match_group_def match_number_def Let_def

lemmas check_defs = normalise_def replace_constants_def remove_whitespace_def trim_def
  is_whitespace_def glyph1_def glyph2_def PI_string_def originalPattern_def withMathPow_def
  original_char_def mathpow_char_def balanced_def division_at_def

lemmas example_defs = example_runtime_def example_call_def execute_def function_source_def

lemmas display_defs = handleOperatorClick_def appendToDisplay_def shows_error_def
  slice_last_def slice_init_def operator_char_def Let_def

subsection \<open>The power loop\<close>

text \<open>
  A text with a caret that a pass leaves as it is, and with fewer than ten carets, keeps
  the loop running for ever.
\<close>

lemma power_loop_stuck:
  assumes c: "cu CHR ''^'' \<in> set s"
    and r: "replace_power s = s"
    and n: "length (split_on (cu CHR ''^'') s) \<le> 10"
  shows "power_loop s b = None"
proof (rule ccontr)
  assume "power_loop s b \<noteq> None"
  then obtain y where y: "power_loop s b = Some y" by blast
  have "s' \<noteq> s" if "power_loop s' b' = Some y'" for s' b' y'
  proof (rule power_loop.raw_induct [where P = "\<lambda>e h y. e \<noteq> s", OF _ that])
    fix f :: "jsstring \<Rightarrow> bool \<Rightarrow> (error + jsstring \<times> bool) option"
    fix e h y
    assume IH: "\<And>e h y. f e h = Some y \<Longrightarrow> e \<noteq> s"
    assume body: "(if cu CHR ''^'' \<notin> set e then Some (Inr (e, h))
      else let expression' = replace_power e
           in if cu CHR ''^'' \<notin> set expression' then Some (Inr (expression', True))
              else if 10 < length (split_on (cu CHR ''^'') expression')
                   then Some (Inl TooManyPowerOps)
                   else f expression' True) = Some y"
    show "e \<noteq> s"
    proof
      assume "e = s"
      with body c r n have "f s True = Some y"
        by (simp add: Let_def)
      then have "s \<noteq> s" by (rule IH)
      then show False by simp
    qed
  qed
  from this [OF y] show False by simp
qed

lemma power_loop_error:
  assumes "power_loop e h = Some (Inl err)"
  shows "err = TooManyPowerOps"
proof -
  have "\<forall>err. y = Inl err \<longrightarrow> err = TooManyPowerOps"
    if "power_loop e' h' = Some y" for e' h' y
  proof (rule power_loop.raw_induct
      [where P = "\<lambda>e h y. \<forall>err. y = Inl err \<longrightarrow> err = TooManyPowerOps", OF _ that])
    fix f :: "jsstring \<Rightarrow> bool \<Rightarrow> (error + jsstring \<times> bool) option"
    fix e h y
    assume IH: "\<And>e h y. f e h = Some y \<Longrightarrow> \<forall>err. y = Inl err \<longrightarrow> err = TooManyPowerOps"
    assume body: "(if cu CHR ''^'' \<notin> set e then Some (Inr (e, h))
      else let expression' = replace_power e
           in if cu CHR ''^'' \<notin> set expression' then Some (Inr (expression', True))
              else if 10 < length (split_on (cu CHR ''^'') expression')
                   then Some (Inl TooManyPowerOps)
                   else f expression' True) = Some y"
    from body IH [of "replace_power e" True y]
    show "\<forall>err. y = Inl err \<longrightarrow> err = TooManyPowerOps"
      by (auto simp: Let_def split: if_splits)
  qed
  from this [OF assms] show ?thesis by simp
qed

text \<open>
  C1. The claim is that the loop of lines 28 to 40 ends on every input, so that
  \<open>evaluate\<close> always returns. It does not: on \<open>2^(3)\<close> and on \<open>2^\<close> the pattern of line
  31 finds no match (it wants digits after the caret), the text keeps its one caret, the
  test of line 37 counts two pieces, and the loop runs again on the same text.
\<close>

theorem evaluate_does_not_return:
  "evaluate rt (js ''2^(3)'') = None \<and> evaluate rt (js ''2^'') = None"
proof -
  have "power_loop (js ''2^(3)'') False = None"
    by (rule power_loop_stuck) (simp_all add: string_defs match_defs)
  moreover have "power_loop (js ''2^'') False = None"
    by (rule power_loop_stuck) (simp_all add: string_defs match_defs)
  ultimately show ?thesis
    by (simp add: evaluate_def check_defs string_defs)
qed

subsection \<open>No whitespace gets in\<close>

lemma no_whitespace_simps [simp]:
  "no_whitespace []"
  "no_whitespace (c # cs) \<longleftrightarrow> \<not> is_whitespace c \<and> no_whitespace cs"
  "no_whitespace (xs @ ys) \<longleftrightarrow> no_whitespace xs \<and> no_whitespace ys"
  by (simp_all add: no_whitespace_def)

lemma no_whitespace_remove [simp]: "no_whitespace (remove_whitespace s)"
  by (simp add: no_whitespace_def remove_whitespace_def list_all_iff)

lemma remove_whitespace_id: "no_whitespace s \<Longrightarrow> remove_whitespace s = s"
  by (simp add: no_whitespace_def remove_whitespace_def list_all_iff)

lemma no_whitespace_replace2:
  "no_whitespace r \<Longrightarrow> no_whitespace s \<Longrightarrow> no_whitespace (replace2 p q r s)"
  by (induction p q r s rule: replace2.induct) auto

lemma no_whitespace_PI: "no_whitespace PI_string"
  by (simp add: PI_string_def string_defs is_whitespace_def)

lemma no_whitespace_normalise: "no_whitespace (normalise expression)"
  by (simp add: normalise_def replace_constants_def no_whitespace_replace2 no_whitespace_PI)

lemma no_whitespace_replace_power:
  "no_whitespace s \<Longrightarrow> no_whitespace (replace_power s)"
proof (induction s rule: replace_power.induct)
  case 1
  then show ?case by simp
next
  case (2 c cs)
  show ?case
  proof (cases "match_power (c # cs)")
    case None
    with 2 show ?thesis by simp
  next
    case (Some m)
    then obtain b e r where m: "match_power (c # cs) = Some (b, e, r)"
      by (cases m) auto
    have "no_whitespace (b @ cu CHR ''^'' # e @ r)"
      using match_power_split [OF m] "2.prems" by simp
    then have parts: "no_whitespace b" "no_whitespace e" "no_whitespace r"
      by simp_all
    from parts(3) have "no_whitespace (replace_power r)"
      using "2.IH"(2) m by simp
    with m parts show ?thesis
      by (simp add: string_defs is_whitespace_def)
  qed
qed


lemma no_whitespace_power_loop:
  assumes "power_loop e h = Some (Inr (s, hp))" and "no_whitespace e"
  shows "no_whitespace s"
proof -
  have "no_whitespace e' \<longrightarrow> (\<forall>s hp. y = Inr (s, hp) \<longrightarrow> no_whitespace s)"
    if "power_loop e' h' = Some y" for e' h' y
  proof (rule power_loop.raw_induct
      [where P = "\<lambda>e h y. no_whitespace e \<longrightarrow> (\<forall>s hp. y = Inr (s, hp) \<longrightarrow> no_whitespace s)",
        OF _ that])
    fix f :: "jsstring \<Rightarrow> bool \<Rightarrow> (error + jsstring \<times> bool) option"
    fix e h y
    assume IH: "\<And>e h y. f e h = Some y \<Longrightarrow>
      no_whitespace e \<longrightarrow> (\<forall>s hp. y = Inr (s, hp) \<longrightarrow> no_whitespace s)"
    assume body: "(if cu CHR ''^'' \<notin> set e then Some (Inr (e, h))
      else let expression' = replace_power e
           in if cu CHR ''^'' \<notin> set expression' then Some (Inr (expression', True))
              else if 10 < length (split_on (cu CHR ''^'') expression')
                   then Some (Inl TooManyPowerOps)
                   else f expression' True) = Some y"
    show "no_whitespace e \<longrightarrow> (\<forall>s hp. y = Inr (s, hp) \<longrightarrow> no_whitespace s)"
    proof (intro impI allI)
      fix s hp
      assume e: "no_whitespace e" and y: "y = Inr (s, hp)"
      then have r: "no_whitespace (replace_power e)"
        by (simp add: no_whitespace_replace_power)
      from body e r y IH [of "replace_power e" True y] show "no_whitespace s"
        by (auto simp: Let_def split: if_splits)
    qed
  qed
  from this [OF assms(1)] assms(2) show ?thesis by simp
qed


subsection \<open>The division check\<close>

lemma dropWhile_no_whitespace: "no_whitespace r \<Longrightarrow> dropWhile is_whitespace r = r"
  by (cases r) simp_all

lemma slash_zero: "js ''/0'' = [cu CHR ''/'', cu CHR ''0'']"
  by (simp add: js_def)

lemma point_prefix: "prefix (js ''.'') post \<longleftrightarrow> (\<exists>t. post = cu CHR ''.'' # t)"
  by (cases post) (auto simp: js_def)

lemma division_at_iff:
  assumes "no_whitespace s"
  shows "division_at s \<longleftrightarrow> (\<exists>post. s = js ''/0'' @ post \<and> \<not> prefix (js ''.'') post)"
proof (cases s)
  case Nil
  then show ?thesis by (simp add: division_at_def slash_zero)
next
  case (Cons c r)
  with assms have "dropWhile is_whitespace r = r"
    by (simp add: dropWhile_no_whitespace)
  with Cons show ?thesis
    by (auto simp: division_at_def slash_zero point_prefix split: list.splits)
qed

lemma division_by_zero_iff:
  "no_whitespace s \<Longrightarrow>
   division_by_zero s \<longleftrightarrow> (\<exists>pre post. s = pre @ js ''/0'' @ post \<and> \<not> prefix (js ''.'') post)"
proof (induction s)
  case Nil
  then show ?case by (simp add: slash_zero)
next
  case (Cons c cs)
  then have cs: "no_whitespace cs" by simp
  let ?here = "\<exists>post. c # cs = js ''/0'' @ post \<and> \<not> prefix (js ''.'') post"
  let ?later = "\<exists>pre post. cs = pre @ js ''/0'' @ post \<and> \<not> prefix (js ''.'') post"
  have "division_by_zero (c # cs) \<longleftrightarrow> ?here \<or> ?later"
    using division_at_iff [OF Cons.prems] Cons.IH [OF cs] by simp
  also have "\<dots> \<longleftrightarrow> (\<exists>pre post. c # cs = pre @ js ''/0'' @ post \<and> \<not> prefix (js ''.'') post)"
  proof
    assume "?here \<or> ?later"
    then show "\<exists>pre post. c # cs = pre @ js ''/0'' @ post \<and> \<not> prefix (js ''.'') post"
    proof
      assume ?here
      then obtain post where "c # cs = [] @ js ''/0'' @ post \<and> \<not> prefix (js ''.'') post"
        by auto
      then show ?thesis by blast
    next
      assume ?later
      then obtain pre post where "c # cs = (c # pre) @ js ''/0'' @ post \<and> \<not> prefix (js ''.'') post"
        by auto
      then show ?thesis by blast
    qed
  next
    assume "\<exists>pre post. c # cs = pre @ js ''/0'' @ post \<and> \<not> prefix (js ''.'') post"
    then obtain pre post where p: "c # cs = pre @ js ''/0'' @ post" "\<not> prefix (js ''.'') post"
      by blast
    show "?here \<or> ?later"
    proof (cases pre)
      case Nil
      with p show ?thesis by auto
    next
      case (Cons a pre')
      with p have "cs = pre' @ js ''/0'' @ post" by simp
      with p(2) show ?thesis by blast
    qed
  qed
  finally show ?case .
qed

subsection \<open>The shape of evaluate\<close>

lemma evaluate_at_division_check:
  assumes "text_at_division_check expression = Some s"
  shows "evaluate rt expression =
    Some (if division_by_zero s then Inl DivisionByZero else execute rt s)"
  using assms
  by (auto simp: text_at_division_check_def evaluate_def
      split: if_splits option.splits sum.splits prod.splits)

lemma execute_error:
  "execute rt s = Inl err \<Longrightarrow> err = InvalidExpression \<or> err = InvalidResult"
  by (auto simp: execute_def split: call_result.splits if_splits)

lemma no_whitespace_at_division_check:
  assumes "text_at_division_check expression = Some s"
  shows "no_whitespace s"
proof -
  from assms obtain hp where "power_loop (normalise expression) False = Some (Inr (s, hp))"
    by (auto simp: text_at_division_check_def
        split: if_splits option.splits sum.splits prod.splits)
  then show ?thesis
    by (rule no_whitespace_power_loop) (rule no_whitespace_normalise)
qed

text \<open>
  C2, as amended. For an input that reaches the division check with the text \<open>s\<close>,
  \<open>evaluate\<close> returns the error "Division by zero" exactly when \<open>s\<close> contains \<open>/0\<close> not
  followed by a decimal point. What follows the zero is tested for the point only: a
  digit after \<open>/0\<close> does not save the input, and a point does.
\<close>

theorem division_by_zero_is_slash_zero_without_point:
  assumes "text_at_division_check expression = Some s"
  shows "evaluate rt expression = Some (Inl DivisionByZero) \<longleftrightarrow>
    (\<exists>pre post. s = pre @ js ''/0'' @ post \<and> \<not> prefix (js ''.'') post)"
proof -
  have "evaluate rt expression = Some (Inl DivisionByZero) \<longleftrightarrow> division_by_zero s"
    using evaluate_at_division_check [OF assms, of rt] execute_error [of rt s DivisionByZero]
    by auto
  also have "\<dots> \<longleftrightarrow> (\<exists>pre post. s = pre @ js ''/0'' @ post \<and> \<not> prefix (js ''.'') post)"
    using no_whitespace_at_division_check [OF assms] by (rule division_by_zero_iff)
  finally show ?thesis .
qed

theorem division_by_zero_is_slash_zero_without_point_witness:
  "text_at_division_check (js ''5/01'') = Some (js ''5/01'') \<and>
   evaluate example_runtime (js ''5/01'') = Some (Inl DivisionByZero)"
proof -
  have h: "text_at_division_check (js ''5/01'') = Some (js ''5/01'')"
    by (simp add: text_at_division_check_def power_loop.simps check_defs string_defs)
  have "js ''5/01'' = js ''5'' @ js ''/0'' @ js ''1'' \<and> \<not> prefix (js ''.'') (js ''1'')"
    by (simp add: string_defs)
  then have "\<exists>pre post. js ''5/01'' = pre @ js ''/0'' @ post \<and> \<not> prefix (js ''.'') post"
    by blast
  with division_by_zero_is_slash_zero_without_point [OF h, of example_runtime] h
  show ?thesis by simp
qed

text \<open>
  The claim as it was written fails on both of its examples: \<open>5/01\<close>, where a digit
  follows \<open>/0\<close>, is rejected, and \<open>5/0.5\<close>, where a character that is no digit follows
  \<open>/0\<close>, is not.
\<close>

theorem digit_after_slash_zero_is_rejected:
  "evaluate example_runtime (js ''5/01'') = Some (Inl DivisionByZero) \<and>
   evaluate example_runtime (js ''5/0.5'') = Some (Inr 10)"
proof -
  have "evaluate example_runtime (js ''5/01'') = Some (Inl DivisionByZero)"
    by (simp add: evaluate_def power_loop.simps check_defs string_defs)
  moreover have "evaluate example_runtime (js ''5/0.5'') = Some (Inr 10)"
    by (simp add: evaluate_def power_loop.simps check_defs string_defs example_defs)
  ultimately show ?thesis by simp
qed

subsection \<open>Errors\<close>

lemma remove_whitespace_normalise:
  "remove_whitespace (normalise expression) = normalise expression"
  by (rule remove_whitespace_id) (rule no_whitespace_normalise)

lemma evaluate_error_kinds:
  assumes "evaluate rt expression = Some (Inl e)"
  shows "e \<in> set evaluate_errors"
proof (cases "expression = [] \<or> trim expression = []")
  case True
  with assms show ?thesis by (auto simp: evaluate_def evaluate_errors_def)
next
  case False
  show ?thesis
  proof (cases "power_loop (normalise expression) False")
    case None
    with assms False show ?thesis by (simp add: evaluate_def)
  next
    case (Some y)
    show ?thesis
    proof (cases y)
      case (Inl err)
      with Some have "err = TooManyPowerOps" by (simp add: power_loop_error)
      with assms False Some Inl show ?thesis
        by (simp add: evaluate_def evaluate_errors_def)
    next
      case (Inr p)
      obtain s hp where p: "p = (s, hp)" by (cases p)
      from assms False Some Inr p execute_error [of rt s e] show ?thesis
        by (auto simp: evaluate_def evaluate_errors_def split: if_splits)
    qed
  qed
qed

text \<open>
  C3, as amended. Let the input be not blank. When its text after the normalisation has
  no caret and holds a character outside the digits, \<open>+ - * / ( ) .\<close> and the two code
  units of the glyph, \<open>evaluate\<close> returns "Invalid characters". When a power rewrite took
  place and its loop ended with a text that holds a character outside that set extended
  by \<open>M a t h p o w\<close>, the comma and whitespace, \<open>evaluate\<close> returns the error of line 51,
  "Invalid power expression", which is an error of its own. \<open>evaluate\<close> and \<open>percentage\<close>
  return no error but the eight of \<open>evaluate_errors\<close>, \<open>sqrt\<close> none but "Negative square
  root" and \<open>power\<close> none but "Invalid power": eleven kinds in all.
\<close>

theorem invalid_characters_and_error_kinds:
  "(expression \<noteq> [] \<and> trim expression \<noteq> [] \<and> cu CHR ''^'' \<notin> set (normalise expression) \<and>
      (\<exists>c \<in> set (normalise expression). \<not> original_char c) \<longrightarrow>
      evaluate rt expression = Some (Inl InvalidCharacters)) \<and>
   (expression \<noteq> [] \<and> trim expression \<noteq> [] \<and>
      power_loop (normalise expression) False = Some (Inr (s, True)) \<and>
      (\<exists>c \<in> set s. \<not> mathpow_char c) \<longrightarrow>
      evaluate rt expression = Some (Inl InvalidPowerExpression)) \<and>
   (evaluate rt expression = Some (Inl e) \<longrightarrow> e \<in> set evaluate_errors) \<and>
   (percentage rt expression = Some (Inl e) \<longrightarrow> e \<in> set evaluate_errors) \<and>
   (sqrt_calc rt v = Inl NegativeSqrt \<or> sqrt_calc rt v = Inr (Math_sqrt rt v)) \<and>
   (power rt b x = Inl InvalidPower \<or> power rt b x = Inr (Math_pow rt b x))"
proof -
  have "expression \<noteq> [] \<and> trim expression \<noteq> [] \<and> cu CHR ''^'' \<notin> set (normalise expression) \<and>
      (\<exists>c \<in> set (normalise expression). \<not> original_char c) \<longrightarrow>
      evaluate rt expression = Some (Inl InvalidCharacters)"
    by (auto simp: evaluate_def power_loop.simps remove_whitespace_normalise
        originalPattern_def list_all_iff)
  moreover have "expression \<noteq> [] \<and> trim expression \<noteq> [] \<and>
      power_loop (normalise expression) False = Some (Inr (s, True)) \<and>
      (\<exists>c \<in> set s. \<not> mathpow_char c) \<longrightarrow>
      evaluate rt expression = Some (Inl InvalidPowerExpression)"
    by (auto simp: evaluate_def withMathPow_def list_all_iff)
  moreover have "evaluate rt expression = Some (Inl e) \<longrightarrow> e \<in> set evaluate_errors"
    by (simp add: evaluate_error_kinds)
  moreover have "percentage rt expression = Some (Inl e) \<longrightarrow> e \<in> set evaluate_errors"
    by (auto simp: percentage_def evaluate_error_kinds split: option.splits sum.splits)
  moreover have "sqrt_calc rt v = Inl NegativeSqrt \<or> sqrt_calc rt v = Inr (Math_sqrt rt v)"
    by (simp add: sqrt_calc_def)
  moreover have "power rt b x = Inl InvalidPower \<or> power rt b x = Inr (Math_pow rt b x)"
    by (simp add: power_def Let_def)
  ultimately show ?thesis by blast
qed

theorem invalid_characters_and_error_kinds_witness:
  "evaluate example_runtime (js ''2+a'') = Some (Inl InvalidCharacters) \<and>
   evaluate example_runtime (js ''x+2^3'') = Some (Inl InvalidPowerExpression) \<and>
   evaluate example_runtime (js ''5/0'') = Some (Inl DivisionByZero) \<and>
   percentage example_runtime (js ''(2+3'') = Some (Inl UnmatchedParens) \<and>
   DivisionByZero \<in> set evaluate_errors \<and> UnmatchedParens \<in> set evaluate_errors"
proof -
  have "evaluate example_runtime (js ''2+a'') = Some (Inl InvalidCharacters)"
    using invalid_characters_and_error_kinds
      [of "js ''2+a''" example_runtime "[]" EmptyExpression 0 0 0]
    by (simp add: check_defs string_defs)
  moreover have "evaluate example_runtime (js ''x+2^3'') = Some (Inl InvalidPowerExpression)"
    using invalid_characters_and_error_kinds
      [of "js ''x+2^3''" example_runtime "js ''x+Math.pow(2,3)''" EmptyExpression 0 0 0]
    by (simp add: power_loop.simps check_defs string_defs match_defs)
  moreover have a: "evaluate example_runtime (js ''5/0'') = Some (Inl DivisionByZero)"
    by (simp add: evaluate_def power_loop.simps check_defs string_defs)
  moreover have b: "percentage example_runtime (js ''(2+3'') = Some (Inl UnmatchedParens)"
    by (simp add: percentage_def evaluate_def power_loop.simps check_defs string_defs)
  moreover have "DivisionByZero \<in> set evaluate_errors"
    using a invalid_characters_and_error_kinds
      [of "js ''5/0''" example_runtime "[]" DivisionByZero 0 0 0]
    by simp
  moreover have "UnmatchedParens \<in> set evaluate_errors"
    using b invalid_characters_and_error_kinds
      [of "js ''(2+3''" example_runtime "[]" UnmatchedParens 0 0 0]
    by simp
  ultimately show ?thesis by blast
qed

text \<open>
  The claim as it was written fails on \<open>x+2^3\<close>: the letter is outside every allowed
  set, the error is not "Invalid characters", and it is none of the ten kinds of the
  taxonomy.
\<close>

theorem invalid_power_expression_is_an_eleventh_error:
  "evaluate example_runtime (js ''x+2^3'') = Some (Inl InvalidPowerExpression) \<and>
   \<not> original_char (cu CHR ''x'') \<and> \<not> mathpow_char (cu CHR ''x'') \<and>
   InvalidPowerExpression \<noteq> InvalidCharacters \<and>
   InvalidPowerExpression \<notin> set taxonomy"
proof -
  have "evaluate example_runtime (js ''x+2^3'') = Some (Inl InvalidPowerExpression)"
    by (simp add: evaluate_def power_loop.simps check_defs string_defs match_defs)
  moreover have "\<not> original_char (cu CHR ''x'') \<and> \<not> mathpow_char (cu CHR ''x'')"
    by (simp add: check_defs string_defs)
  moreover have "InvalidPowerExpression \<notin> set taxonomy"
    by (simp add: taxonomy_def)
  ultimately show ?thesis by simp
qed

subsection \<open>The examples\<close>

text \<open>
  C6. \<open>evaluate("5/0")\<close> is the error "Division by zero", whatever the engine; and
  \<open>evaluate("5/0.5")\<close> is the number 10, on an engine that answers 10 to the program text
  \<open>"use strict"; return (5/0.5)\<close> of line 71, holds 10 for finite and rounds it to
  itself: the text passes every check, goes to the engine as it is between the two
  literals of line 71, and the result is returned rounded.
\<close>

theorem evaluate_division_examples:
  assumes \<open>Function_call rt (js ''"use strict"; return (5/0.5)'') = Returned (js_number rt 10)\<close>
    and "js_isFinite rt (js_number rt 10)"
    and "js_divide rt (Math_round rt (js_times rt (js_number rt 10) (js_number rt 100000000)))
           (js_number rt 100000000) = js_number rt 10"
  shows "evaluate rt (js ''5/0'') = Some (Inl DivisionByZero) \<and>
    evaluate rt (js ''5/0.5'') = Some (Inr (js_number rt 10))"
proof -
  have "evaluate rt (js ''5/0'') = Some (Inl DivisionByZero)"
    by (simp add: evaluate_def power_loop.simps check_defs string_defs)
  moreover have "evaluate rt (js ''5/0.5'') = Some (execute rt (js ''5/0.5''))"
    by (simp add: evaluate_def power_loop.simps check_defs string_defs)
  moreover have \<open>function_source (js ''5/0.5'') = js ''"use strict"; return (5/0.5)''\<close>
    by (simp add: function_source_def js_def)
  then have "execute rt (js ''5/0.5'') = Inr (js_number rt 10)"
    using assms by (simp add: execute_def)
  ultimately show ?thesis by simp
qed

theorem evaluate_division_examples_witness:
  "evaluate example_runtime (js ''5/0'') = Some (Inl DivisionByZero) \<and>
   evaluate example_runtime (js ''5/0.5'') = Some (Inr 10)"
proof -
  have n: "js_number example_runtime 10 = 10"
    by (simp add: example_runtime_def)
  have a: \<open>Function_call example_runtime (js ''"use strict"; return (5/0.5)'') =
      Returned (js_number example_runtime 10)\<close>
    by (simp add: example_runtime_def example_call_def)
  have b: "js_isFinite example_runtime (js_number example_runtime 10)"
    by (simp add: example_runtime_def)
  have c: "js_divide example_runtime
      (Math_round example_runtime
        (js_times example_runtime (js_number example_runtime 10)
          (js_number example_runtime 100000000)))
      (js_number example_runtime 100000000) = js_number example_runtime 10"
    by (simp add: example_runtime_def)
  from evaluate_division_examples [OF a b c] n show ?thesis by simp
qed

subsection \<open>percentage\<close>

text \<open>
  C9. When \<open>evaluate\<close> returns a number, \<open>percentage\<close> returns that number divided by
  100; when \<open>evaluate\<close> returns an error, \<open>percentage\<close> returns the same error.
\<close>

theorem percentage_of_evaluate:
  "(evaluate rt e = Some (Inr v) \<longrightarrow>
      percentage rt e = Some (Inr (js_divide rt v (js_number rt 100)))) \<and>
   (evaluate rt e = Some (Inl err) \<longrightarrow> percentage rt e = Some (Inl err))"
  by (simp add: percentage_def)

theorem percentage_of_evaluate_witness:
  "evaluate example_runtime (js ''250'') = Some (Inr 250) \<and>
   percentage example_runtime (js ''250'') = Some (Inr (5 / 2)) \<and>
   evaluate example_runtime (js ''5/0'') = Some (Inl DivisionByZero) \<and>
   percentage example_runtime (js ''5/0'') = Some (Inl DivisionByZero)"
proof -
  have a: "evaluate example_runtime (js ''250'') = Some (Inr 250)"
    by (simp add: evaluate_def power_loop.simps check_defs string_defs example_defs)
  have b: "evaluate example_runtime (js ''5/0'') = Some (Inl DivisionByZero)"
    by (simp add: evaluate_def power_loop.simps check_defs string_defs)
  have "percentage example_runtime (js ''250'') = Some (Inr (5 / 2))"
    using a percentage_of_evaluate [of example_runtime "js ''250''" 250 EmptyExpression]
    by (simp add: example_runtime_def)
  moreover have "percentage example_runtime (js ''5/0'') = Some (Inl DivisionByZero)"
    using b percentage_of_evaluate [of example_runtime "js ''5/0''" 0 DivisionByZero]
    by simp
  ultimately show ?thesis using a b by simp
qed

subsection \<open>Numbers that evaluate returns\<close>

text \<open>
  A number that \<open>evaluate\<close> returns is the rounding of what the engine answered to the
  checked text, put between the two literals of line 71.
\<close>

lemma evaluate_success_is_rounded:
  assumes "evaluate rt expression = Some (Inr v)"
  shows \<open>\<exists>s r. text_at_division_check expression = Some s \<and>
    Function_call rt (js ''"use strict"; return ('' @ s @ js '')'') = Returned r \<and>
    js_isFinite rt r \<and>
    v = js_divide rt (Math_round rt (js_times rt r (js_number rt 100000000)))
          (js_number rt 100000000)\<close>
  using assms
  by (auto simp: evaluate_def text_at_division_check_def execute_def function_source_def
      split: if_splits option.splits sum.splits prod.splits call_result.splits)

text \<open>
  C5. The claim is that \<open>evaluate\<close> returns the value, rounded to eight places, of every
  valid expression with a finite value. It does not for powers outside the pattern of
  line 31: on \<open>2^-1\<close> (value 0.5) and on \<open>(1+(2))^2\<close> (value 9) no pass of the loop
  changes the text and \<open>evaluate\<close> never returns, and \<open>2^3^2\<close> goes to the engine as
  \<open>Math.powMath.pow((2,3),2)\<close>, which is not the expression.
\<close>

theorem power_expressions_not_evaluated:
  "evaluate rt (js ''2^-1'') = None \<and>
   evaluate rt (js ''(1+(2))^2'') = None \<and>
   evaluate rt (js ''2^3^2'') = Some (execute rt (js ''Math.powMath.pow((2,3),2)''))"
proof -
  have "power_loop (js ''2^-1'') False = None"
    by (rule power_loop_stuck) (simp_all add: string_defs match_defs)
  then have a: "evaluate rt (js ''2^-1'') = None"
    by (simp add: evaluate_def check_defs string_defs)
  have "power_loop (js ''(1+(2))^2'') False = None"
    by (rule power_loop_stuck) (simp_all add: string_defs match_defs)
  then have b: "evaluate rt (js ''(1+(2))^2'') = None"
    by (simp add: evaluate_def check_defs string_defs)
  have c: "evaluate rt (js ''2^3^2'') = Some (execute rt (js ''Math.powMath.pow((2,3),2)''))"
    by (simp add: evaluate_def power_loop.simps check_defs string_defs match_defs)
  from a b c show ?thesis by simp
qed

subsection \<open>The history\<close>

lemma maxHistoryItems_addToHistory [simp]:
  "maxHistoryItems (addToHistory e r t s) = maxHistoryItems s"
  by (simp add: addToHistory_def Let_def)

lemma maxHistoryItems_clearHistory [simp]:
  "maxHistoryItems (clearHistory s) = maxHistoryItems s"
  by (simp add: clearHistory_def)

lemma length_addToHistory:
  "length (history s) \<le> maxHistoryItems s \<Longrightarrow>
   length (history (addToHistory e r t s)) \<le> maxHistoryItems s"
  by (simp add: addToHistory_def Let_def)

lemma history_step_invariant:
  assumes "maxHistoryItems s = 10 \<and> length (history s) \<le> 10"
  shows "maxHistoryItems (history_step s x) = 10 \<and> length (history (history_step s x)) \<le> 10"
proof (cases x)
  case (AddToHistory e r t)
  with assms length_addToHistory [of s e r t] show ?thesis by simp
next
  case ClearHistory
  with assms show ?thesis by (simp add: clearHistory_def)
qed

lemma foldl_history_invariant:
  "maxHistoryItems s = 10 \<and> length (history s) \<le> 10 \<Longrightarrow>
   maxHistoryItems (foldl history_step s ops) = 10 \<and>
   length (history (foldl history_step s ops)) \<le> 10"
proof (induction ops arbitrary: s)
  case Nil
  then show ?case by simp
next
  case (Cons x xs)
  from Cons.prems have "maxHistoryItems (history_step s x) = 10 \<and>
      length (history (history_step s x)) \<le> 10"
    by (rule history_step_invariant)
  then show ?case using Cons.IH by simp
qed

lemma run_history_invariant:
  "maxHistoryItems (run_history ops) = 10 \<and> length (history (run_history ops)) \<le> 10"
  unfolding run_history_def
  by (rule foldl_history_invariant) (simp add: new_CalculatorState_def)

text \<open>
  C7. After any sequence of \<open>addToHistory\<close> and \<open>clearHistory\<close> on a new
  \<open>CalculatorState\<close> the history holds at most ten entries; and when it holds ten,
  \<open>addToHistory\<close> puts the new entry first and drops the last, which is the oldest.
\<close>

theorem history_never_exceeds_ten:
  "length (history (run_history ops)) \<le> 10 \<and>
   (length (history (run_history ops)) = 10 \<longrightarrow>
      history (addToHistory e r t (run_history ops)) =
        \<lparr>entry_expression = e, entry_result = r, entry_timestamp = t\<rparr>
          # butlast (history (run_history ops)))"
proof -
  have m: "maxHistoryItems (run_history ops) = 10"
    using run_history_invariant [of ops] by simp
  have "length (history (run_history ops)) \<le> 10"
    using run_history_invariant [of ops] by simp
  moreover have "length (history (run_history ops)) = 10 \<longrightarrow>
      history (addToHistory e r t (run_history ops)) =
        \<lparr>entry_expression = e, entry_result = r, entry_timestamp = t\<rparr>
          # butlast (history (run_history ops))"
    using m by (simp add: addToHistory_def Let_def)
  ultimately show ?thesis by blast
qed

theorem history_never_exceeds_ten_witness:
  "length (history (run_history ten_additions)) = 10 \<and>
   history (addToHistory (js ''2*3'') 6 11 (run_history ten_additions)) =
     \<lparr>entry_expression = js ''2*3'', entry_result = 6, entry_timestamp = 11\<rparr>
       # butlast (history (run_history ten_additions)) \<and>
   map entry_timestamp (history (addToHistory (js ''2*3'') 6 11 (run_history ten_additions))) =
     [11, 10, 9, 8, 7, 6, 5, 4, 3, 2]"
proof -
  have h: "length (history (run_history ten_additions)) = 10"
    by (simp add: ten_additions_def run_history_def new_CalculatorState_def addToHistory_def Let_def)
  have e: "map entry_timestamp (history (run_history ten_additions)) = [10, 9, 8, 7, 6, 5, 4, 3, 2, 1]"
    by (simp add: ten_additions_def run_history_def new_CalculatorState_def addToHistory_def Let_def)
  from h history_never_exceeds_ten [of ten_additions "js ''2*3''" 6 11]
  have a: "history (addToHistory (js ''2*3'') 6 11 (run_history ten_additions)) =
     \<lparr>entry_expression = js ''2*3'', entry_result = 6, entry_timestamp = 11\<rparr>
       # butlast (history (run_history ten_additions))"
    by blast
  have "map entry_timestamp (butlast (history (run_history ten_additions))) = [10, 9, 8, 7, 6, 5, 4, 3, 2]"
    using e by (simp add: map_butlast)
  with h a show ?thesis by simp
qed

subsection \<open>Operators on the display\<close>

text \<open>
  C4, as amended. An operator is appended to the display, except that on an empty display
  every operator but the minus is ignored; that an operator other than the minus, coming
  after \<open>+\<close>, \<open>-\<close>, \<open>*\<close> or \<open>/\<close>, takes the place of that last character, while a minus
  is appended after it; and that a display showing an error is emptied before the operator
  is appended.
\<close>

theorem handleOperatorClick_cases:
  "(display = [] \<and> v \<noteq> js ''-'' \<longrightarrow> handleOperatorClick v display = display) \<and>
   (display = [] \<and> v = js ''-'' \<longrightarrow> handleOperatorClick v display = js ''-'') \<and>
   (display \<noteq> [] \<and> operator_char (last display) \<and> v \<noteq> js ''-'' \<longrightarrow>
      handleOperatorClick v display = butlast display @ v) \<and>
   (display \<noteq> [] \<and> (\<not> operator_char (last display) \<or> v = js ''-'') \<and> \<not> shows_error display \<longrightarrow>
      handleOperatorClick v display = display @ v) \<and>
   ((\<not> operator_char (last display) \<or> v = js ''-'') \<and> shows_error display \<longrightarrow>
      handleOperatorClick v display = v)"
proof -
  have e: "shows_error display \<Longrightarrow> display \<noteq> []"
    by (auto simp: shows_error_def string_defs)
  have n: "\<not> shows_error []"
    by (simp add: shows_error_def string_defs)
  have "display = [] \<and> v \<noteq> js ''-'' \<longrightarrow> handleOperatorClick v display = display"
    using n by (simp add: handleOperatorClick_def)
  moreover have "display = [] \<and> v = js ''-'' \<longrightarrow> handleOperatorClick v display = js ''-''"
    using n by (simp add: handleOperatorClick_def slice_last_def appendToDisplay_def)
  moreover have "display \<noteq> [] \<and> operator_char (last display) \<and> v \<noteq> js ''-'' \<longrightarrow>
      handleOperatorClick v display = butlast display @ v"
    by (simp add: handleOperatorClick_def slice_last_def slice_init_def)
  moreover have "display \<noteq> [] \<and> (\<not> operator_char (last display) \<or> v = js ''-'') \<and>
      \<not> shows_error display \<longrightarrow> handleOperatorClick v display = display @ v"
    by (auto simp: handleOperatorClick_def slice_last_def appendToDisplay_def)
  moreover have "(\<not> operator_char (last display) \<or> v = js ''-'') \<and> shows_error display \<longrightarrow>
      handleOperatorClick v display = v"
    using e n by (auto simp: handleOperatorClick_def slice_last_def appendToDisplay_def)
  ultimately show ?thesis by blast
qed

theorem handleOperatorClick_cases_witness:
  "handleOperatorClick (js ''*'') [] = [] \<and>
   handleOperatorClick (js ''-'') [] = js ''-'' \<and>
   handleOperatorClick (js ''*'') (js ''5+'') = js ''5*'' \<and>
   handleOperatorClick (js ''-'') (js ''5+'') = js ''5+-'' \<and>
   handleOperatorClick (js ''+'') (js ''5'') = js ''5+'' \<and>
   handleOperatorClick (js ''+'') (js ''Error: Division by zero'') = js ''+''"
proof -
  have "handleOperatorClick (js ''*'') [] = []"
    using handleOperatorClick_cases [of "[]" "js ''*''"] by (simp add: string_defs)
  moreover have "handleOperatorClick (js ''-'') [] = js ''-''"
    using handleOperatorClick_cases [of "[]" "js ''-''"] by (simp add: string_defs)
  moreover have "handleOperatorClick (js ''*'') (js ''5+'') = js ''5*''"
    using handleOperatorClick_cases [of "js ''5+''" "js ''*''"]
    by (simp add: string_defs operator_char_def)
  moreover have "handleOperatorClick (js ''-'') (js ''5+'') = js ''5+-''"
    using handleOperatorClick_cases [of "js ''5+''" "js ''-''"]
    by (simp add: string_defs operator_char_def shows_error_def)
  moreover have "handleOperatorClick (js ''+'') (js ''5'') = js ''5+''"
    using handleOperatorClick_cases [of "js ''5''" "js ''+''"]
    by (simp add: string_defs operator_char_def shows_error_def)
  moreover have "handleOperatorClick (js ''+'') (js ''Error: Division by zero'') = js ''+''"
    using handleOperatorClick_cases [of "js ''Error: Division by zero''" "js ''+''"]
    by (simp add: string_defs operator_char_def shows_error_def)
  ultimately show ?thesis by blast
qed

text \<open>
  The claim as it was written fails for a minus after an operator: it is appended, and
  the operator before it stays.
\<close>

theorem minus_after_operator_is_appended:
  "handleOperatorClick (js ''-'') (js ''5+'') = js ''5+-'' \<and>
   handleOperatorClick (js ''-'') (js ''5+'') \<noteq> js ''5-''"
  by (simp add: display_defs string_defs)

lemma error_text_shape:
  "shows_error (error_text e) \<and> error_text e \<noteq> [] \<and> \<not> operator_char (last (error_text e))"
  by (cases e) (simp_all add: shows_error_def operator_char_def string_defs)

text \<open>
  C10, as amended. On a display that shows an error and does not end in \<open>+\<close>, \<open>-\<close>, \<open>*\<close>
  or \<open>/\<close>, an operator event leaves the display holding exactly the value of the event:
  for \<open>+\<close>, \<open>-\<close>, \<open>*\<close> and \<open>/\<close> alike, since the test for an empty display reads the value
  from before the clearing. Every error string of the calculator, and the bare marker
  \<open>Error\<close>, is such a display. The minus does so on every display that shows an error.
\<close>

theorem operator_on_error_marker:
  "(shows_error display \<and> (\<not> operator_char (last display) \<or> v = js ''-'') \<longrightarrow>
      handleOperatorClick v display = v) \<and>
   handleOperatorClick v (error_text e) = v \<and>
   handleOperatorClick v (js ''Error'') = v"
proof -
  have n: "shows_error display \<Longrightarrow> display \<noteq> []"
    by (auto simp: shows_error_def string_defs)
  have "shows_error display \<and> (\<not> operator_char (last display) \<or> v = js ''-'') \<longrightarrow>
      handleOperatorClick v display = v"
    using n by (auto simp: handleOperatorClick_def slice_last_def appendToDisplay_def)
  moreover have "handleOperatorClick v (error_text e) = v"
    using error_text_shape [of e]
    by (auto simp: handleOperatorClick_def slice_last_def appendToDisplay_def)
  moreover have "handleOperatorClick v (js ''Error'') = v"
    by (simp add: display_defs string_defs)
  ultimately show ?thesis by blast
qed

theorem operator_on_error_marker_witness:
  "shows_error (js ''Error: Division by zero'') \<and>
   handleOperatorClick (js ''+'') (js ''Error: Division by zero'') = js ''+'' \<and>
   handleOperatorClick (js ''*'') (js ''Error: Division by zero'') = js ''*'' \<and>
   handleOperatorClick (js ''/'') (js ''Error: Division by zero'') = js ''/'' \<and>
   handleOperatorClick (js ''-'') (js ''Error: Division by zero'') = js ''-'' \<and>
   shows_error (js ''Error: x-'') \<and>
   handleOperatorClick (js ''-'') (js ''Error: x-'') = js ''-''"
proof -
  have h: "shows_error (js ''Error: Division by zero'')"
    by (simp add: shows_error_def string_defs)
  have l: "\<not> operator_char (last (js ''Error: Division by zero''))"
    by (simp add: operator_char_def string_defs)
  have x: "shows_error (js ''Error: x-'')"
    by (simp add: shows_error_def string_defs)
  have "handleOperatorClick (js ''+'') (js ''Error: Division by zero'') = js ''+''"
    using h l operator_on_error_marker
      [of "js ''Error: Division by zero''" "js ''+''" EmptyExpression]
    by blast
  moreover have "handleOperatorClick (js ''*'') (js ''Error: Division by zero'') = js ''*''"
    using h l operator_on_error_marker
      [of "js ''Error: Division by zero''" "js ''*''" EmptyExpression]
    by blast
  moreover have "handleOperatorClick (js ''/'') (js ''Error: Division by zero'') = js ''/''"
    using h l operator_on_error_marker
      [of "js ''Error: Division by zero''" "js ''/''" EmptyExpression]
    by blast
  moreover have "handleOperatorClick (js ''-'') (js ''Error: Division by zero'') = js ''-''"
    using h l operator_on_error_marker
      [of "js ''Error: Division by zero''" "js ''-''" EmptyExpression]
    by blast
  moreover have "handleOperatorClick (js ''-'') (js ''Error: x-'') = js ''-''"
    using x operator_on_error_marker [of "js ''Error: x-''" "js ''-''" EmptyExpression]
    by blast
  ultimately show ?thesis using h x by blast
qed

text \<open>
  The claim as it was written fails on a display that shows an error and ends in an
  operator: there an operator other than the minus is written over the last character
  of the old text, and the error stays on the display.
\<close>

theorem operator_after_marker_ending_in_operator:
  "shows_error (js ''Error: x-'') \<and>
   handleOperatorClick (js ''+'') (js ''Error: x-'') = js ''Error: x+'' \<and>
   handleOperatorClick (js ''+'') (js ''Error: x-'') \<noteq> js ''+''"
  by (simp add: display_defs string_defs)

end
